theory Spec2Isabelle
  imports Main
begin

section \<open>Values of the plugin framework\<close>

text \<open>
  The provider stores every attribute in a framework value (\<open>types.String\<close>,
  \<open>types.Bool\<close>, \<open>types.List\<close>). Such a value is null, unknown, or known with a
  payload; the zero value of the Go types is the null value.
\<close>

datatype 'a tfval = Null | Unknown | Known 'a

type_synonym tf_string = "string tfval"
type_synonym tf_bool = "bool tfval"
type_synonym tf_list = "tf_string list tfval"

definition IsNull :: "'a tfval \<Rightarrow> bool" where
  "IsNull v = (case v of Null \<Rightarrow> True | _ \<Rightarrow> False)"

definition IsUnknown :: "'a tfval \<Rightarrow> bool" where
  "IsUnknown v = (case v of Unknown \<Rightarrow> True | _ \<Rightarrow> False)"

definition ValueString :: "tf_string \<Rightarrow> string" where
  \<comment> \<open>the known string, and the empty string for null and unknown\<close>
  "ValueString v = (case v of Known s \<Rightarrow> s | _ \<Rightarrow> [])"

subsection \<open>Runes and quoting\<close>

text \<open>
  Go reads a string rune by rune as \<open>utf8.DecodeRuneInString\<close> does: a byte that
  does not start a well-formed UTF-8 sequence is one rune on its own, the replacement
  character U+FFFD of width 1.
\<close>

definition rune_size :: "nat \<Rightarrow> nat" where
  \<comment> \<open>the length announced by a leading byte, 0 for a byte that cannot lead\<close>
  "rune_size b =
     (if b < 0x80 then 1 else if b < 0xC2 then 0 else if b < 0xE0 then 2
      else if b < 0xF0 then 3 else if b < 0xF5 then 4 else 0)"

definition accept_lo :: "nat \<Rightarrow> nat" where
  "accept_lo b = (if b = 0xE0 then 0xA0 else if b = 0xF0 then 0x90 else 0x80)"

definition accept_hi :: "nat \<Rightarrow> nat" where
  "accept_hi b = (if b = 0xED then 0x9F else if b = 0xF4 then 0x8F else 0xBF)"

definition byte_at :: "string \<Rightarrow> nat \<Rightarrow> nat" where
  "byte_at s i = of_char (s ! i)"

definition DecodeRune_width :: "string \<Rightarrow> nat" where
  "DecodeRune_width s =
     (let sz = rune_size (byte_at s 0) in
      if s = [] then 0
      else if sz \<le> 1 then 1
      else if length s < sz then 1
      else if byte_at s 1 < accept_lo (byte_at s 0) \<or> accept_hi (byte_at s 0) < byte_at s 1
        then 1
      else if sz \<le> 2 then 2
      else if byte_at s 2 < 0x80 \<or> 0xBF < byte_at s 2 then 1
      else if sz \<le> 3 then 3
      else if byte_at s 3 < 0x80 \<or> 0xBF < byte_at s 3 then 1
      else 4)"

definition DecodeRune :: "string \<Rightarrow> nat" where
  \<comment> \<open>the code point of the first rune\<close>
  "DecodeRune s =
     (let w = DecodeRune_width s in
      if w = 2 then (byte_at s 0 mod 0x20) * 0x40 + byte_at s 1 mod 0x40
      else if w = 3 then
        (byte_at s 0 mod 0x10) * 0x1000 + (byte_at s 1 mod 0x40) * 0x40
          + byte_at s 2 mod 0x40
      else if w = 4 then
        (byte_at s 0 mod 8) * 0x40000 + (byte_at s 1 mod 0x40) * 0x1000
          + (byte_at s 2 mod 0x40) * 0x40 + byte_at s 3 mod 0x40
      else if s = [] \<or> 0x80 \<le> byte_at s 0 then 0xFFFD
      else byte_at s 0)"

text \<open>
  \<open>String()\<close> is the framework's human-readable rendering: fixed markers for unknown
  and null, and the known string formatted with Go's \<open>%q\<close>, that is, written by
  \<open>strconv.Quote\<close>: between double quotes, with the double quote and the backslash
  escaped, printable runes copied, and every other rune escaped (a malformed byte as
  \<open>\x\<close> and two digits, a rune that is not printable by its short name or as
  \<open>\x\<close>, \<open>\u\<close> or \<open>\U\<close> and its digits). Which runes are printable is
  fixed in \<open>strconv.IsPrint\<close> up to U+00FF and read from tables above; the tables
  are a parameter.
\<close>

definition IsPrint :: "(nat \<Rightarrow> bool) \<Rightarrow> nat \<Rightarrow> bool" where
  "IsPrint tables r =
     (if r \<le> 0xFF then (0x20 \<le> r \<and> r \<le> 0x7E) \<or> (0xA1 \<le> r \<and> r \<noteq> 0xAD)
      else tables r)"

definition lowerhex :: "nat \<Rightarrow> char" where
  "lowerhex n = ''0123456789abcdef'' ! (n mod 16)"

fun quote_rune :: "(nat \<Rightarrow> bool) \<Rightarrow> string \<Rightarrow> string" where
  \<comment> \<open>the rendering of the first rune of the string\<close>
  "quote_rune tables [] = []"
| "quote_rune tables (c # cs) =
     (let b = (of_char c :: nat); w = DecodeRune_width (c # cs); r = DecodeRune (c # cs) in
      if b < 0x80 then
        (if c = CHR 0x22 \<or> c = CHR 0x5C then [CHR 0x5C, c]
         else if IsPrint tables b then [c]
         else if b = 7 then [CHR 0x5C, CHR ''a'']
         else if b = 8 then [CHR 0x5C, CHR ''b'']
         else if b = 12 then [CHR 0x5C, CHR ''f'']
         else if b = 10 then [CHR 0x5C, CHR ''n'']
         else if b = 13 then [CHR 0x5C, CHR ''r'']
         else if b = 9 then [CHR 0x5C, CHR ''t'']
         else if b = 11 then [CHR 0x5C, CHR ''v'']
         else [CHR 0x5C, CHR ''x'', lowerhex (b div 16), lowerhex b])
      else if w = 1 then [CHR 0x5C, CHR ''x'', lowerhex (b div 16), lowerhex b]
      else if IsPrint tables r then take w (c # cs)
      else if r < 0x10000 then
        CHR 0x5C # CHR ''u'' # map (\<lambda>k. lowerhex (r div 16 ^ k)) [3, 2, 1, 0]
      else
        CHR 0x5C # CHR ''U'' # map (\<lambda>k. lowerhex (r div 16 ^ k)) [7, 6, 5, 4, 3, 2, 1, 0])"

fun quote_runes :: "(nat \<Rightarrow> bool) \<Rightarrow> nat \<Rightarrow> string \<Rightarrow> string" where
  \<comment> \<open>the second argument is the number of bytes left of the rune just rendered\<close>
  "quote_runes tables k [] = []"
| "quote_runes tables 0 (c # cs) =
     quote_rune tables (c # cs) @ quote_runes tables (DecodeRune_width (c # cs) - 1) cs"
| "quote_runes tables (Suc k) (c # cs) = quote_runes tables k cs"

definition strconv_Quote :: "(nat \<Rightarrow> bool) \<Rightarrow> string \<Rightarrow> string" where
  "strconv_Quote tables s = CHR 0x22 # quote_runes tables 0 s @ [CHR 0x22]"

definition String :: "(nat \<Rightarrow> bool) \<Rightarrow> tf_string \<Rightarrow> string" where
  "String tables v = (case v of Unknown \<Rightarrow> ''<unknown>'' | Null \<Rightarrow> ''<null>''
                        | Known s \<Rightarrow> strconv_Quote tables s)"

definition StringValue :: "string \<Rightarrow> tf_string" where
  "StringValue s = Known s"

definition StringPointerValue :: "string option \<Rightarrow> tf_string" where
  \<comment> \<open>a nil pointer gives the null value\<close>
  "StringPointerValue p = (case p of None \<Rightarrow> Null | Some s \<Rightarrow> Known s)"

definition BoolPointerValue :: "bool option \<Rightarrow> tf_bool" where
  "BoolPointerValue p = (case p of None \<Rightarrow> Null | Some b \<Rightarrow> Known b)"

definition ListValue :: "tf_string list \<Rightarrow> tf_list" where
  \<comment> \<open>\<open>types.ListValue(types.StringType, elems)\<close>: all elements are strings, so no
      diagnostic is produced and the list is known, also when it has no element\<close>
  "ListValue elems = Known elems"

subsection \<open>Diagnostics\<close>

datatype severity = SeverityError | SeverityWarning

datatype attr_path = Root string | AtListIndex attr_path nat

record diagnostic =
  Severity :: severity
  Attribute :: "attr_path option"
  Summary :: string
  Detail :: string

definition HasError :: "diagnostic list \<Rightarrow> bool" where
  "HasError ds = (SeverityError \<in> Severity ` set ds)"

definition AddError :: "diagnostic list \<Rightarrow> string \<Rightarrow> string \<Rightarrow> diagnostic list" where
  "AddError ds summary detail =
     ds @ [\<lparr>Severity = SeverityError, Attribute = None, Summary = summary, Detail = detail\<rparr>]"

definition AddAttributeError ::
  "diagnostic list \<Rightarrow> attr_path \<Rightarrow> string \<Rightarrow> string \<Rightarrow> diagnostic list" where
  "AddAttributeError ds path summary detail =
     ds @ [\<lparr>Severity = SeverityError, Attribute = Some path, Summary = summary, Detail = detail\<rparr>]"

text \<open>
  What the framework hands to an operation: the diagnostics and the model that
  \<open>req.Plan.Get\<close>, \<open>req.State.Get\<close> or \<open>req.Config.Get\<close> produce, and the response
  object the operation fills in (its diagnostics and the state it will persist).
  \<open>resp.State.Set\<close> is given a model of the shape of the schema, so it stores the
  model and returns no diagnostic.
\<close>

record 'm tf_request =
  Get_diags :: "diagnostic list"
  Get_data :: 'm

record response_base =
  Diagnostics :: "diagnostic list"

record 'm tf_response = response_base +
  State :: "'m option"

section \<open>The remote API client\<close>

text \<open>
  The wire shape of an account as the client library decodes it: every attribute but
  \<open>Uuid\<close> is a pointer (nil when the key is missing), \<open>Uuid\<close> is a plain string.
\<close>

record account_item =
  item_Description :: "string option"
  item_Dn :: "string option"
  item_Email :: "string option"
  item_Folders :: "string list option"
  item_Identifier :: "string option"
  item_Kind :: "string option"
  item_LocalAuth :: "bool option"
  item_Name :: "string option"
  item_Permissions :: "string list option"
  item_Uuid :: string

record 'r envelope =
  Result :: "'r option"
  Success :: "bool option"

record http_response =
  StatusCode :: int
  Status :: string

record 'b response200 = http_response +
  JSON200 :: "'b option"

record 'b response201 = http_response +
  JSON201 :: "'b option"

datatype json = JNull | JBool bool | JString string | JArray "json list"
  | JObject "(string \<times> json) list"

text \<open>
  The client is a collaborator: each method either fails with an error message or
  returns a response. Request bodies are kept as JSON documents (an object is the
  ordered list of its members) rather than as bytes.
\<close>

record smc_client =
  PostApiAccountsWithBodyWithResponse :: "string \<Rightarrow> json \<Rightarrow> string + account_item envelope response201"
  GetApiAccountsUuidWithResponse :: "string \<Rightarrow> string + account_item response200"
  PutApiAccountsUuidWithBodyWithResponse :: "string \<Rightarrow> string \<Rightarrow> json \<Rightarrow> string + account_item envelope response200"
  DeleteApiAccountsUuidWithResponse :: "string \<Rightarrow> string + account_item envelope response200"
  GetApiAccountsWithResponse :: "string + account_item list envelope response200"

text \<open>The requests an operation issued, in order.\<close>

datatype api_call =
    PostApiAccounts string json
  | GetApiAccountsUuid string
  | PutApiAccountsUuid string string json
  | DeleteApiAccountsUuid string
  | GetApiAccounts

record 'm effect =
  Resp :: "'m tf_response"
  Local :: 'm
  Calls :: "api_call list"

section \<open>The account resource\<close>

record AccountResourceModel =
  Description :: tf_string
  DN :: tf_string
  Email :: tf_string
  Folders :: tf_list
  Identifier :: tf_string
  Kind :: tf_string
  LastUpdated :: tf_string
  LocalAuth :: tf_bool
  Name :: tf_string
  Password :: tf_string
  Permissions :: tf_list
  UUID :: tf_string

text \<open>
  \<open>readAccountResourceModel\<close> overwrites the record in place from a decoded account.
  The formatted current time is a parameter.
\<close>

definition readAccountResourceModel ::
  "string \<Rightarrow> AccountResourceModel \<Rightarrow> account_item \<Rightarrow> AccountResourceModel" where
  "readAccountResourceModel now data item =
     (let data = data\<lparr>Description := StringPointerValue (item_Description item)\<rparr>;
          data = data\<lparr>DN := StringPointerValue (item_Dn item)\<rparr>;
          data = data\<lparr>Email := StringPointerValue (item_Email item)\<rparr>;
          data = (case item_Folders item of
                    None \<Rightarrow> data
                  | Some folders \<Rightarrow> data\<lparr>Folders := ListValue (map StringValue folders)\<rparr>);
          data = data\<lparr>Identifier := StringPointerValue (item_Identifier item)\<rparr>;
          data = data\<lparr>Kind := StringPointerValue (item_Kind item)\<rparr>;
          data = data\<lparr>LocalAuth := BoolPointerValue (item_LocalAuth item)\<rparr>;
          data = data\<lparr>Name := StringPointerValue (item_Name item)\<rparr>;
          data = (case item_Permissions item of
                    None \<Rightarrow> data
                  | Some permissions \<Rightarrow> data\<lparr>Permissions := ListValue (map StringValue permissions)\<rparr>);
          data = data\<lparr>UUID := StringValue (item_Uuid item)\<rparr>
      in data\<lparr>LastUpdated := StringValue now\<rparr>)"

subsection \<open>Serialisation of the record\<close>

text \<open>
  \<open>json.Marshal(data)\<close> walks the struct in declaration order and writes one member
  per field under the name of its \<open>json\<close> tag; no tag carries \<open>omitempty\<close>. How a
  framework value itself is rendered is decided by the framework's types, so the three
  value encoders are parameters; an encoder may fail, and then so does the call.
\<close>

record encoders =
  encString :: "tf_string \<Rightarrow> string + json"
  encBool :: "tf_bool \<Rightarrow> string + json"
  encList :: "tf_list \<Rightarrow> string + json"

fun marshal_fields :: "(string \<times> (string + json)) list \<Rightarrow> string + (string \<times> json) list" where
  "marshal_fields [] = Inr []"
| "marshal_fields ((k, Inl e) # kvs) = Inl e"
| "marshal_fields ((k, Inr v) # kvs) =
     (case marshal_fields kvs of Inl e \<Rightarrow> Inl e | Inr r \<Rightarrow> Inr ((k, v) # r))"

definition json_Marshal :: "encoders \<Rightarrow> AccountResourceModel \<Rightarrow> string + json" where
  "json_Marshal enc data =
     (case marshal_fields
        [(''description'', encString enc (Description data)),
         (''dn'', encString enc (DN data)),
         (''email'', encString enc (Email data)),
         (''folders'', encList enc (Folders data)),
         (''identifier'', encString enc (Identifier data)),
         (''kind'', encString enc (Kind data)),
         (''last_updated'', encString enc (LastUpdated data)),
         (''local_auth'', encBool enc (LocalAuth data)),
         (''name'', encString enc (Name data)),
         (''password'', encString enc (Password data)),
         (''permissions'', encList enc (Permissions data)),
         (''uuid'', encString enc (UUID data))]
      of Inl e \<Rightarrow> Inl e | Inr members \<Rightarrow> Inr (JObject members))"

subsection \<open>Create\<close>

definition Create ::
  "encoders \<Rightarrow> string \<Rightarrow> smc_client \<Rightarrow> AccountResourceModel tf_request \<Rightarrow>
   AccountResourceModel tf_response \<Rightarrow> AccountResourceModel effect" where
  "Create enc now client req resp =
     (let data = Get_data req;
          resp = resp\<lparr>Diagnostics := Diagnostics resp @ Get_diags req\<rparr>
      in if HasError (Diagnostics resp) then \<lparr>Resp = resp, Local = data, Calls = []\<rparr>
      else case json_Marshal enc data of
        Inl err \<Rightarrow>
          \<lparr>Resp = resp\<lparr>Diagnostics := AddError (Diagnostics resp)
              ''Error getting the JSON encoding of the SMC Account data''
              (''Could not get the JSON encoding of the SMC Account data: '' @ err)\<rparr>,
           Local = data, Calls = []\<rparr>
      | Inr body \<Rightarrow>
          (case PostApiAccountsWithBodyWithResponse client ''application/json'' body of
             Inl err \<Rightarrow>
               \<lparr>Resp = resp\<lparr>Diagnostics := AddError (Diagnostics resp)
                   ''Error Creating the SMC Account''
                   (''Could not read the SMC account identifier ''
                      @ ValueString (Identifier data) @ '': '' @ err)\<rparr>,
                Local = data, Calls = [PostApiAccounts ''application/json'' body]\<rparr>
           | Inr respAPI \<Rightarrow>
               if StatusCode respAPI \<noteq> 201 then
                 \<lparr>Resp = resp\<lparr>Diagnostics := AddError (Diagnostics resp)
                     ''HTTP Error Creating the SMC Account''
                     (''HTTP status code '' @ Status respAPI
                        @ '' returned while creating the SMC account'')\<rparr>,
                  Local = data, Calls = [PostApiAccounts ''application/json'' body]\<rparr>
               else if JSON201 respAPI = None \<or> Result (the (JSON201 respAPI)) = None then
                 \<lparr>Resp = resp\<lparr>Diagnostics := AddError (Diagnostics resp)
                     ''No results Reading response after creating the SMC Account''
                     ''No results returned after creating SMC the Account''\<rparr>,
                  Local = data, Calls = [PostApiAccounts ''application/json'' body]\<rparr>
               else
                 (let data' = readAccountResourceModel now data (the (Result (the (JSON201 respAPI))))
                  in \<lparr>Resp = resp\<lparr>State := Some data'\<rparr>, Local = data',
                      Calls = [PostApiAccounts ''application/json'' body]\<rparr>)))"

subsection \<open>Read, Update, Delete\<close>

definition Read ::
  "(nat \<Rightarrow> bool) \<Rightarrow> string \<Rightarrow> smc_client \<Rightarrow> AccountResourceModel tf_request \<Rightarrow>
   AccountResourceModel tf_response \<Rightarrow> AccountResourceModel effect" where
  "Read tables now client req resp =
     (let data = Get_data req;
          resp = resp\<lparr>Diagnostics := Diagnostics resp @ Get_diags req\<rparr>
      in if HasError (Diagnostics resp) then \<lparr>Resp = resp, Local = data, Calls = []\<rparr>
      else case GetApiAccountsUuidWithResponse client (ValueString (UUID data)) of
        Inl err \<Rightarrow>
          \<lparr>Resp = resp\<lparr>Diagnostics := AddError (Diagnostics resp)
              ''Error Reading the SMC Account''
              (''Could not read the SMC account with UUID '' @ String tables (UUID data)
                 @ '': '' @ err)\<rparr>,
           Local = data, Calls = [GetApiAccountsUuid (ValueString (UUID data))]\<rparr>
      | Inr respAPI \<Rightarrow>
          if StatusCode respAPI \<noteq> 200 then
            \<lparr>Resp = resp\<lparr>Diagnostics := AddError (Diagnostics resp)
                ''HTTP Error Reading the SMC Account''
                (''HTTP status code '' @ Status respAPI
                   @ '' returned while reading the SMC account'')\<rparr>,
             Local = data, Calls = [GetApiAccountsUuid (ValueString (UUID data))]\<rparr>
          else if JSON200 respAPI = None then
            \<lparr>Resp = resp\<lparr>Diagnostics := AddError (Diagnostics resp)
                ''No result Reading the SMC Account''
                ''No result returned after reading the SMC Account''\<rparr>,
             Local = data, Calls = [GetApiAccountsUuid (ValueString (UUID data))]\<rparr>
          else
            (let data' = readAccountResourceModel now data (the (JSON200 respAPI))
             in \<lparr>Resp = resp\<lparr>State := Some data'\<rparr>, Local = data',
                 Calls = [GetApiAccountsUuid (ValueString (UUID data))]\<rparr>))"

definition Update ::
  "encoders \<Rightarrow> (nat \<Rightarrow> bool) \<Rightarrow> string \<Rightarrow> smc_client \<Rightarrow> AccountResourceModel tf_request \<Rightarrow>
   AccountResourceModel tf_response \<Rightarrow> AccountResourceModel effect" where
  "Update enc tables now client req resp =
     (let data = Get_data req;
          resp = resp\<lparr>Diagnostics := Diagnostics resp @ Get_diags req\<rparr>
      in if HasError (Diagnostics resp) then \<lparr>Resp = resp, Local = data, Calls = []\<rparr>
      else case json_Marshal enc data of
        Inl err \<Rightarrow>
          \<lparr>Resp = resp\<lparr>Diagnostics := AddError (Diagnostics resp)
              ''Error getting the JSON encoding of the SMC Account data''
              (''Could not get the JSON encoding of the SMC Account data: '' @ err)\<rparr>,
           Local = data, Calls = []\<rparr>
      | Inr body \<Rightarrow>
          (case PutApiAccountsUuidWithBodyWithResponse client (String tables (UUID data))
                  ''application/json'' body of
             Inl err \<Rightarrow>
               \<lparr>Resp = resp\<lparr>Diagnostics := AddError (Diagnostics resp)
                   ''Error Updating the SMC Account''
                   (''Could not update the SMC account UUID '' @ String tables (UUID data)
                      @ '': '' @ err)\<rparr>,
                Local = data,
                Calls = [PutApiAccountsUuid (String tables (UUID data)) ''application/json'' body]\<rparr>
           | Inr respAPI \<Rightarrow>
               if StatusCode respAPI \<noteq> 200 then
                 \<lparr>Resp = resp\<lparr>Diagnostics := AddError (Diagnostics resp)
                     ''HTTP Error Updating the SMC Account''
                     (''HTTP status code '' @ Status respAPI
                        @ '' returned while updating the SMC account'')\<rparr>,
                  Local = data,
                  Calls = [PutApiAccountsUuid (String tables (UUID data)) ''application/json'' body]\<rparr>
               else if JSON200 respAPI = None \<or> Result (the (JSON200 respAPI)) = None then
                 \<lparr>Resp = resp\<lparr>Diagnostics := AddError (Diagnostics resp)
                     ''No results Reading response after updating the SMC Account''
                     ''No results returned after updating the SMC Account''\<rparr>,
                  Local = data,
                  Calls = [PutApiAccountsUuid (String tables (UUID data)) ''application/json'' body]\<rparr>
               else
                 (let data' = readAccountResourceModel now data
                                (the (Result (the (JSON200 respAPI))))
                  in \<lparr>Resp = resp\<lparr>State := Some data'\<rparr>, Local = data',
                      Calls = [PutApiAccountsUuid (String tables (UUID data))
                                 ''application/json'' body]\<rparr>)))"

text \<open>
  \<open>Delete\<close> never writes the state: the framework drops it after a \<open>Delete\<close> that
  reported no error.
\<close>

definition Delete ::
  "(nat \<Rightarrow> bool) \<Rightarrow> smc_client \<Rightarrow> AccountResourceModel tf_request \<Rightarrow>
   AccountResourceModel tf_response \<Rightarrow> AccountResourceModel effect" where
  "Delete tables client req resp =
     (let data = Get_data req;
          resp = resp\<lparr>Diagnostics := Diagnostics resp @ Get_diags req\<rparr>
      in if HasError (Diagnostics resp) then \<lparr>Resp = resp, Local = data, Calls = []\<rparr>
      else case DeleteApiAccountsUuidWithResponse client (String tables (UUID data)) of
        Inl err \<Rightarrow>
          \<lparr>Resp = resp\<lparr>Diagnostics := AddError (Diagnostics resp)
              ''Error Deleting the SMC Account''
              (''Could not delete the SMC account UUID '' @ String tables (UUID data)
                 @ '': '' @ err)\<rparr>,
           Local = data, Calls = [DeleteApiAccountsUuid (String tables (UUID data))]\<rparr>
      | Inr respAPI \<Rightarrow>
          if StatusCode respAPI \<noteq> 200 then
            \<lparr>Resp = resp\<lparr>Diagnostics := AddError (Diagnostics resp)
                ''HTTP Error Deleting the SMC Account''
                (''HTTP status code '' @ Status respAPI
                   @ '' returned while deleting the SMC account'')\<rparr>,
             Local = data, Calls = [DeleteApiAccountsUuid (String tables (UUID data))]\<rparr>
          else if JSON200 respAPI = None \<or> Result (the (JSON200 respAPI)) = None then
            \<lparr>Resp = resp\<lparr>Diagnostics := AddError (Diagnostics resp)
                ''No results Reading response after deleting the SMC Account''
                ''No results returned after deleting SMC the Account''\<rparr>,
             Local = data, Calls = [DeleteApiAccountsUuid (String tables (UUID data))]\<rparr>
          else \<lparr>Resp = resp, Local = data, Calls = [DeleteApiAccountsUuid (String tables (UUID data))]\<rparr>)"

subsection \<open>Validators of the schema\<close>









section \<open>The account data sources\<close>

record AccountDataSourceModel =
  ds_UUID :: tf_string
  ds_Description :: tf_string
  ds_DN :: tf_string
  ds_Email :: tf_string
  ds_Folders :: tf_list
  ds_Identifier :: tf_string
  ds_Kind :: tf_string
  ds_LocalAuth :: tf_bool
  ds_Name :: tf_string
  ds_Permissions :: tf_list

definition readAccountDataSourceModel ::
  "AccountDataSourceModel \<Rightarrow> account_item \<Rightarrow> AccountDataSourceModel" where
  "readAccountDataSourceModel data item =
     (let data = data\<lparr>ds_Description := StringPointerValue (item_Description item)\<rparr>;
          data = data\<lparr>ds_DN := StringPointerValue (item_Dn item)\<rparr>;
          data = data\<lparr>ds_Email := StringPointerValue (item_Email item)\<rparr>;
          data = (case item_Folders item of
                    None \<Rightarrow> data
                  | Some folders \<Rightarrow> data\<lparr>ds_Folders := ListValue (map StringValue folders)\<rparr>);
          data = data\<lparr>ds_Identifier := StringPointerValue (item_Identifier item)\<rparr>;
          data = data\<lparr>ds_Kind := StringPointerValue (item_Kind item)\<rparr>;
          data = data\<lparr>ds_LocalAuth := BoolPointerValue (item_LocalAuth item)\<rparr>;
          data = data\<lparr>ds_Name := StringPointerValue (item_Name item)\<rparr>;
          data = (case item_Permissions item of
                    None \<Rightarrow> data
                  | Some permissions \<Rightarrow>
                      data\<lparr>ds_Permissions := ListValue (map StringValue permissions)\<rparr>)
      in data\<lparr>ds_UUID := StringValue (item_Uuid item)\<rparr>)"

text \<open>The data source for one account, looked up by its identifier.\<close>

definition AccountDataSource_Read ::
  "smc_client \<Rightarrow> AccountDataSourceModel tf_request \<Rightarrow>
   AccountDataSourceModel tf_response \<Rightarrow> AccountDataSourceModel effect" where
  "AccountDataSource_Read client req resp =
     (let data = Get_data req;
          resp = resp\<lparr>Diagnostics := Diagnostics resp @ Get_diags req\<rparr>
      in if HasError (Diagnostics resp) then \<lparr>Resp = resp, Local = data, Calls = []\<rparr>
      else case GetApiAccountsUuidWithResponse client (ValueString (ds_Identifier data)) of
        Inl err \<Rightarrow>
          \<lparr>Resp = resp\<lparr>Diagnostics := AddError (Diagnostics resp)
              ''Error Reading SMC Account''
              (''Could not read SMC account identifier ''
                 @ ValueString (ds_Identifier data) @ '': '' @ err)\<rparr>,
           Local = data, Calls = [GetApiAccountsUuid (ValueString (ds_Identifier data))]\<rparr>
      | Inr respAPI \<Rightarrow>
          if StatusCode respAPI \<noteq> 200 then
            \<lparr>Resp = resp\<lparr>Diagnostics := AddError (Diagnostics resp)
                ''HTTP Error Reading SMC Account''
                (''HTTP status code '' @ Status respAPI
                   @ '' returned for SMC account identifier ''
                   @ ValueString (ds_Identifier data))\<rparr>,
             Local = data, Calls = [GetApiAccountsUuid (ValueString (ds_Identifier data))]\<rparr>
          else if JSON200 respAPI = None then
            (if \<not> IsNull (ds_Identifier data) then
               \<lparr>Resp = resp\<lparr>Diagnostics := AddError (Diagnostics resp)
                   ''No results Reading SMC Account''
                   (''No results returned for given identifier: ''
                      @ ValueString (ds_Identifier data))\<rparr>,
                Local = data, Calls = [GetApiAccountsUuid (ValueString (ds_Identifier data))]\<rparr>
             else
               \<lparr>Resp = resp, Local = data,
                Calls = [GetApiAccountsUuid (ValueString (ds_Identifier data))]\<rparr>)
          else
            (let data' = readAccountDataSourceModel data (the (JSON200 respAPI))
             in \<lparr>Resp = resp\<lparr>State := Some data'\<rparr>, Local = data',
                 Calls = [GetApiAccountsUuid (ValueString (ds_Identifier data))]\<rparr>))"

text \<open>
  The data source for all accounts. Each element of the result is read into a fresh
  model, the zero value of the Go struct: its strings and booleans are null, and its
  lists are null lists that carry no element type yet. A list field that the
  projection does not assign stays such a list, and \<open>resp.State.Set\<close> cannot convert
  it to the list of strings of the schema. At this call site \<open>State.Set\<close> can
  therefore fail; it is a parameter that gives the diagnostics of the conversion, and
  the state is stored only if they hold no error.
\<close>

record AccountsDataSourceModel =
  Accounts :: "AccountDataSourceModel list"

definition zero_AccountDataSourceModel :: AccountDataSourceModel where
  "zero_AccountDataSourceModel =
     \<lparr>ds_UUID = Null, ds_Description = Null, ds_DN = Null, ds_Email = Null,
      ds_Folders = Null, ds_Identifier = Null, ds_Kind = Null, ds_LocalAuth = Null,
      ds_Name = Null, ds_Permissions = Null\<rparr>"

definition AccountsDataSource_Read ::
  "(AccountsDataSourceModel \<Rightarrow> diagnostic list) \<Rightarrow> smc_client \<Rightarrow>
   AccountsDataSourceModel tf_request \<Rightarrow>
   AccountsDataSourceModel tf_response \<Rightarrow> AccountsDataSourceModel effect" where
  "AccountsDataSource_Read State_Set client req resp =
     (let data = Get_data req;
          resp = resp\<lparr>Diagnostics := Diagnostics resp @ Get_diags req\<rparr>
      in if HasError (Diagnostics resp) then \<lparr>Resp = resp, Local = data, Calls = []\<rparr>
      else case GetApiAccountsWithResponse client of
        Inl err \<Rightarrow>
          \<lparr>Resp = resp\<lparr>Diagnostics := AddError (Diagnostics resp)
              ''Error Reading SMC Accounts''
              (''Could not read SMC accounts: '' @ err)\<rparr>,
           Local = data, Calls = [GetApiAccounts]\<rparr>
      | Inr respAPI \<Rightarrow>
          if StatusCode respAPI \<noteq> 200 \<or> JSON200 respAPI = None then
            \<lparr>Resp = resp\<lparr>Diagnostics := AddError (Diagnostics resp)
                ''HTTP Error Reading SMC Accounts''
                (''HTTP status code '' @ Status respAPI
                   @ '' returned while reading SMC accounts'')\<rparr>,
             Local = data, Calls = [GetApiAccounts]\<rparr>
          else if Result (the (JSON200 respAPI)) = None
                  \<or> length (the (Result (the (JSON200 respAPI)))) = 0
                  \<or> Success (the (JSON200 respAPI)) = None
                  \<or> \<not> the (Success (the (JSON200 respAPI))) then
            \<lparr>Resp = resp\<lparr>Diagnostics := AddError (Diagnostics resp)
                ''No results Reading SMC Accounts''
                ''No results returned while reading SMC accounts''\<rparr>,
             Local = data, Calls = [GetApiAccounts]\<rparr>
          else
            (let accounts = map (readAccountDataSourceModel zero_AccountDataSourceModel)
                              (the (Result (the (JSON200 respAPI))));
                 data' = data\<lparr>Accounts := accounts\<rparr>;
                 diags = State_Set data';
                 resp = (if HasError diags then resp else resp\<lparr>State := Some data'\<rparr>)
             in \<lparr>Resp = resp\<lparr>Diagnostics := Diagnostics resp @ diags\<rparr>, Local = data',
                 Calls = [GetApiAccounts]\<rparr>))"

section \<open>The provider\<close>

record SMCProviderModel =
  Hostname :: tf_string
  APIKey :: tf_string

record 'c configure_response = response_base +
  DataSourceData :: "'c option"
  ResourceData :: "'c option"

text \<open>
  \<open>Configure\<close> reads the environment through \<open>getenv\<close> (the empty string for a
  variable that is not set) and builds the client with the library's constructor, which
  may fail. The effect records the response and the constructor calls made.
\<close>

record 'c configure_effect =
  Conf :: "'c configure_response"
  NewClientCalls :: "(string \<times> string) list"

text \<open>The texts of the diagnostics of \<open>Configure\<close>.\<close>

definition unknown_hostname_detail :: string where
  "unknown_hostname_detail =
      ''The provider cannot create the SMC client as there is an unknown configuration value for the SMC hostname. ''
      @ ''Either target apply the source of the value first, set the value statically in the configuration, or use the SMC_HOSTNAME environment variable.''"

definition unknown_api_key_detail :: string where
  "unknown_api_key_detail =
      ''The provider cannot create the SMC client as there is an unknown configuration value for the SMC API Key. ''
      @ ''Either target apply the source of the value first, set the value statically in the configuration, or use the SMC_API_KEY environment variable.''"

definition missing_hostname_detail :: string where
  "missing_hostname_detail =
      ''The provider cannot create the SMC client as there is a missing or empty value for the SMC hostname. ''
      @ ''Set the hostname value in the configuration or use the SMC_HOSTNAME environment variable. ''
      @ ''If either is already set, ensure the value is not empty.''"

definition missing_api_key_detail :: string where
  "missing_api_key_detail =
      ''The provider cannot create the SMC client as there is a missing or empty value for the SMC API Key. ''
      @ ''Set the hostname value in the configuration or use the SMC_API_KEY environment variable. ''
      @ ''If either is already set, ensure the value is not empty.''"

definition client_error_detail :: string where
  "client_error_detail =
      ''An unexpected error occurred when creating the SMC client. ''
      @ ''If the error is not clear, please contact the provider developers.''
      @ [CHR 0x0A, CHR 0x0A] @ ''SMC Client Error: ''"

definition Configure ::
  "(string \<Rightarrow> string) \<Rightarrow> (string \<Rightarrow> string \<Rightarrow> string + 'c) \<Rightarrow>
   SMCProviderModel tf_request \<Rightarrow> 'c configure_response \<Rightarrow> 'c configure_effect" where
  "Configure getenv NewSMCClientWithResponses req resp =
     (let data = Get_data req;
          resp = resp\<lparr>Diagnostics := Diagnostics resp @ Get_diags req\<rparr>
      in if HasError (Diagnostics resp) then \<lparr>Conf = resp, NewClientCalls = []\<rparr>
      else
        (let resp = (if IsUnknown (Hostname data) then
                       resp\<lparr>Diagnostics := AddAttributeError (Diagnostics resp) (Root ''hostname'')
                         ''Unknown SMC hostname''
                         unknown_hostname_detail\<rparr>
                     else resp);
             resp = (if IsUnknown (APIKey data) then
                       resp\<lparr>Diagnostics := AddAttributeError (Diagnostics resp) (Root ''api_key'')
                         ''Unknown API Key hostname''
                         unknown_api_key_detail\<rparr>
                     else resp)
         in if HasError (Diagnostics resp) then \<lparr>Conf = resp, NewClientCalls = []\<rparr>
         else
           (let hostname = getenv ''SMC_HOSTNAME'';
                apiKey = getenv ''SMC_API_KEY'';
                hostname = (if \<not> IsNull (Hostname data) then ValueString (Hostname data)
                            else hostname);
                apiKey = (if \<not> IsNull (APIKey data) then ValueString (APIKey data)
                          else apiKey);
                resp = (if hostname = [] then
                          resp\<lparr>Diagnostics := AddAttributeError (Diagnostics resp) (Root ''hostname'')
                            ''Missing SMC hostname''
                            missing_hostname_detail\<rparr>
                        else resp);
                resp = (if IsUnknown (APIKey data) then
                          resp\<lparr>Diagnostics := AddAttributeError (Diagnostics resp) (Root ''api_key'')
                            ''Missing SMC API Key''
                            missing_api_key_detail\<rparr>
                        else resp)
            in if HasError (Diagnostics resp) then \<lparr>Conf = resp, NewClientCalls = []\<rparr>
            else case NewSMCClientWithResponses hostname apiKey of
              Inl err \<Rightarrow>
                \<lparr>Conf = resp\<lparr>Diagnostics := AddError (Diagnostics resp)
                    ''Unable to Create SMC Client''
                    (client_error_detail @ err)\<rparr>,
                 NewClientCalls = [(hostname, apiKey)]\<rparr>
            | Inr client \<Rightarrow>
                \<lparr>Conf = resp\<lparr>DataSourceData := Some client, ResourceData := Some client\<rparr>,
                 NewClientCalls = [(hostname, apiKey)]\<rparr>)))"

section \<open>Test doubles\<close>

text \<open>
  The account that the acceptance tests serve, the plan they apply, and a client that
  answers every request with one fixed status and one fixed account.
\<close>

definition test_account :: account_item where
  "test_account =
     \<lparr>item_Description = Some ''some user description'',
      item_Dn = Some ''CN=bob,DC=company,DC=world'',
      item_Email = Some ''user@email.com'',
      item_Folders = Some [''folder-uuid''],
      item_Identifier = Some ''jdoe'',
      item_Kind = Some ''user'',
      item_LocalAuth = Some True,
      item_Name = Some ''Some Account name'',
      item_Permissions = Some [''smc''],
      item_Uuid = ''75532250-c878-42f1-8871-bafa68e944d4''\<rparr>"

definition test_plan :: AccountResourceModel where
  "test_plan =
     \<lparr>Description = Known ''some user description'',
      DN = Known ''CN=bob,DC=company,DC=world'',
      Email = Known ''user@email.com'',
      Folders = Known [Known ''folder-uuid''],
      Identifier = Known ''jdoe'',
      Kind = Known ''user'',
      LastUpdated = Unknown,
      LocalAuth = Known True,
      Name = Known ''Some Account name'',
      Password = Known ''$2a$10$HM7zy3pUuoyKwnaFk4A4W.9gLQZ3BGWeJqwdlPiOJN6TayLbSQ1Na'',
      Permissions = Known [Known ''smc''],
      UUID = Unknown\<rparr>"

definition fixed_client :: "int \<Rightarrow> string \<Rightarrow> account_item option \<Rightarrow> smc_client" where
  "fixed_client code status account =
     \<lparr>PostApiAccountsWithBodyWithResponse = (\<lambda>contentType body.
        Inr \<lparr>StatusCode = code, Status = status,
             JSON201 = Some \<lparr>Result = account, Success = Some True\<rparr>\<rparr>),
      GetApiAccountsUuidWithResponse = (\<lambda>uuid.
        Inr \<lparr>StatusCode = code, Status = status, JSON200 = account\<rparr>),
      PutApiAccountsUuidWithBodyWithResponse = (\<lambda>uuid contentType body.
        Inr \<lparr>StatusCode = code, Status = status,
             JSON200 = Some \<lparr>Result = account, Success = Some True\<rparr>\<rparr>),
      DeleteApiAccountsUuidWithResponse = (\<lambda>uuid.
        Inr \<lparr>StatusCode = code, Status = status,
             JSON200 = Some \<lparr>Result = account, Success = Some True\<rparr>\<rparr>),
      GetApiAccountsWithResponse =
        Inr \<lparr>StatusCode = code, Status = status,
             JSON200 = Some \<lparr>Result = Some (case account of None \<Rightarrow> [] | Some a \<Rightarrow> [a]),
                             Success = Some True\<rparr>\<rparr>\<rparr>"

definition test_state :: AccountResourceModel where
  \<comment> \<open>the record stored once the test account has been created\<close>
  "test_state = readAccountResourceModel ''Tuesday, 03-Nov-26 10:00:00 UTC'' test_plan test_account"

definition failing_client :: "string \<Rightarrow> smc_client" where
  \<comment> \<open>no request gets an answer\<close>
  "failing_client err =
     \<lparr>PostApiAccountsWithBodyWithResponse = (\<lambda>contentType body. Inl err),
      GetApiAccountsUuidWithResponse = (\<lambda>uuid. Inl err),
      PutApiAccountsUuidWithBodyWithResponse = (\<lambda>uuid contentType body. Inl err),
      DeleteApiAccountsUuidWithResponse = (\<lambda>uuid. Inl err),
      GetApiAccountsWithResponse = Inl err\<rparr>"

definition from_plan :: "'m \<Rightarrow> 'm tf_request" where
  "from_plan data = \<lparr>Get_diags = [], Get_data = data\<rparr>"

definition fresh_response :: "'m option \<Rightarrow> 'm tf_response" where
  "fresh_response st = \<lparr>Diagnostics = [], State = st\<rparr>"

text \<open>
  Tables of printable runes without an entry, for strings that are ASCII; texts of
  the validators that keep the description only; and a \<open>State.Set\<close> for the
  collection read that refuses a model in which an account still has a list without
  element type, with one error that stands for the framework's
  \<open>Value Conversion Error\<close>.
\<close>

definition empty_tables :: "nat \<Rightarrow> bool" where
  "empty_tables r = False"


definition conversion_error :: diagnostic where
  "conversion_error =
     \<lparr>Severity = SeverityError, Attribute = None, Summary = ''Value Conversion Error'',
      Detail = []\<rparr>"

definition refusing_untyped_lists :: "AccountsDataSourceModel \<Rightarrow> diagnostic list" where
  "refusing_untyped_lists data =
     (if list_ex (\<lambda>a. IsNull (ds_Folders a) \<or> IsNull (ds_Permissions a)) (Accounts data)
      then [conversion_error] else [])"

text \<open>
  The framework's value types export no field and define no JSON marshalling of their
  own, so \<open>encoding/json\<close> renders each of them as an empty object.
\<close>

definition empty_object_encoders :: encoders where
  "empty_object_encoders =
     \<lparr>encString = (\<lambda>v. Inr (JObject [])), encBool = (\<lambda>v. Inr (JObject [])),
      encList = (\<lambda>v. Inr (JObject []))\<rparr>"

section \<open>Properties\<close>

lemma HasError_AddError: "HasError (AddError ds s d)"
  by (simp add: HasError_def AddError_def)


subsection \<open>When the mutating operations succeed\<close>

lemma Create_ok_iff:
  "(\<not> HasError (Diagnostics (Resp (Create enc now client req resp)))) =
     (\<not> HasError (Diagnostics resp @ Get_diags req) \<and>
      (\<exists>body r env item. json_Marshal enc (Get_data req) = Inr body \<and>
         PostApiAccountsWithBodyWithResponse client ''application/json'' body = Inr r \<and>
         StatusCode r = 201 \<and> JSON201 r = Some env \<and> Result env = Some item))"
  by (auto simp: Create_def Let_def HasError_AddError split: sum.splits if_splits)

lemma Create_error_keeps:
  "HasError (Diagnostics (Resp (Create enc now client req resp))) \<Longrightarrow>
   State (Resp (Create enc now client req resp)) = State resp \<and>
   Local (Create enc now client req resp) = Get_data req"
  by (auto simp: Create_def Let_def split: sum.splits if_splits)

lemma Create_ok_result:
  "\<not> HasError (Diagnostics (Resp (Create enc now client req resp))) \<Longrightarrow>
   \<exists>body r env item. json_Marshal enc (Get_data req) = Inr body \<and>
      PostApiAccountsWithBodyWithResponse client ''application/json'' body = Inr r \<and>
      JSON201 r = Some env \<and> Result env = Some item \<and>
      State (Resp (Create enc now client req resp))
        = Some (readAccountResourceModel now (Get_data req) item) \<and>
      Local (Create enc now client req resp) = readAccountResourceModel now (Get_data req) item"
  by (auto simp: Create_def Let_def HasError_AddError split: sum.splits if_splits)

lemma Update_ok_iff:
  "(\<not> HasError (Diagnostics (Resp (Update enc tables now client req resp)))) =
     (\<not> HasError (Diagnostics resp @ Get_diags req) \<and>
      (\<exists>body r env item. json_Marshal enc (Get_data req) = Inr body \<and>
         PutApiAccountsUuidWithBodyWithResponse client (String tables (UUID (Get_data req)))
           ''application/json'' body = Inr r \<and>
         StatusCode r = 200 \<and> JSON200 r = Some env \<and> Result env = Some item))"
  by (auto simp: Update_def Let_def HasError_AddError split: sum.splits if_splits)

lemma Update_error_keeps:
  "HasError (Diagnostics (Resp (Update enc tables now client req resp))) \<Longrightarrow>
   State (Resp (Update enc tables now client req resp)) = State resp \<and>
   Local (Update enc tables now client req resp) = Get_data req"
  by (auto simp: Update_def Let_def split: sum.splits if_splits)

lemma Delete_ok_iff:
  "(\<not> HasError (Diagnostics (Resp (Delete tables client req resp)))) =
     (\<not> HasError (Diagnostics resp @ Get_diags req) \<and>
      (\<exists>r env item.
         DeleteApiAccountsUuidWithResponse client (String tables (UUID (Get_data req))) = Inr r \<and>
         StatusCode r = 200 \<and> JSON200 r = Some env \<and> Result env = Some item))"
  by (auto simp: Delete_def Let_def HasError_AddError split: sum.splits if_splits)

lemma Delete_keeps:
  "State (Resp (Delete tables client req resp)) = State resp \<and>
   Local (Delete tables client req resp) = Get_data req"
  by (auto simp: Delete_def Let_def split: sum.splits if_splits)

text \<open>
  C1. \<open>Create\<close> ends without an error diagnostic exactly when the plan was read
  without error, the record was serialised, and the client returned a response with
  status 201 whose envelope was parsed and holds a result. In every other case (a
  network error, any other status, also another 2xx one, a 201 with no envelope or with
  a null result) it reports an error, writes no state and leaves the record as the plan
  gave it; in the successful case the state and the record are the projection of the
  result.
\<close>

theorem Create_succeeds_exactly_on_201_with_result:
  "((\<not> HasError (Diagnostics (Resp (Create enc now client req resp)))) =
      (\<not> HasError (Diagnostics resp @ Get_diags req) \<and>
       (\<exists>body r env item. json_Marshal enc (Get_data req) = Inr body \<and>
          PostApiAccountsWithBodyWithResponse client ''application/json'' body = Inr r \<and>
          StatusCode r = 201 \<and> JSON201 r = Some env \<and> Result env = Some item)))
   \<and> (HasError (Diagnostics (Resp (Create enc now client req resp))) \<longrightarrow>
        State (Resp (Create enc now client req resp)) = State resp \<and>
        Local (Create enc now client req resp) = Get_data req)
   \<and> (\<not> HasError (Diagnostics (Resp (Create enc now client req resp))) \<longrightarrow>
        (\<exists>body r env item. json_Marshal enc (Get_data req) = Inr body \<and>
           PostApiAccountsWithBodyWithResponse client ''application/json'' body = Inr r \<and>
           JSON201 r = Some env \<and> Result env = Some item \<and>
           State (Resp (Create enc now client req resp))
             = Some (readAccountResourceModel now (Get_data req) item) \<and>
           Local (Create enc now client req resp)
             = readAccountResourceModel now (Get_data req) item))"
  using Create_ok_iff [of enc now client req resp]
    Create_error_keeps [of enc now client req resp]
    Create_ok_result [of enc now client req resp]
  by blast

text \<open>
  At a concrete input: a response with status 200 to \<open>Create\<close> is a failure although
  it carries the account, and so is a 201 whose result is null; the 201 of the
  acceptance test is a success and its result is stored.
\<close>

theorem Create_succeeds_exactly_on_201_with_result_witness:
  "HasError (Diagnostics (Resp (Create empty_object_encoders ''now''
      (fixed_client 200 ''200 OK'' (Some test_account)) (from_plan test_plan)
      (fresh_response None))))
   \<and> State (Resp (Create empty_object_encoders ''now''
      (fixed_client 200 ''200 OK'' (Some test_account)) (from_plan test_plan)
      (fresh_response None))) = None
   \<and> Local (Create empty_object_encoders ''now''
      (fixed_client 200 ''200 OK'' (Some test_account)) (from_plan test_plan)
      (fresh_response None)) = test_plan
   \<and> HasError (Diagnostics (Resp (Create empty_object_encoders ''now''
      (fixed_client 201 ''201 Created'' None) (from_plan test_plan) (fresh_response None))))
   \<and> State (Resp (Create empty_object_encoders ''now''
      (fixed_client 201 ''201 Created'' None) (from_plan test_plan) (fresh_response None))) = None
   \<and> \<not> HasError (Diagnostics (Resp (Create empty_object_encoders ''now''
      (fixed_client 201 ''201 Created'' (Some test_account)) (from_plan test_plan)
      (fresh_response None))))"
proof -
  have e200: "HasError (Diagnostics (Resp (Create empty_object_encoders ''now''
      (fixed_client 200 ''200 OK'' (Some test_account)) (from_plan test_plan)
      (fresh_response None))))"
    by code_simp
  have enull: "HasError (Diagnostics (Resp (Create empty_object_encoders ''now''
      (fixed_client 201 ''201 Created'' None) (from_plan test_plan) (fresh_response None))))"
    by code_simp
  have ok: "\<not> HasError (Diagnostics (Resp (Create empty_object_encoders ''now''
      (fixed_client 201 ''201 Created'' (Some test_account)) (from_plan test_plan)
      (fresh_response None))))"
    by code_simp
  show ?thesis
    using e200 enull ok
      Create_succeeds_exactly_on_201_with_result [of empty_object_encoders "''now''"
        "fixed_client 200 ''200 OK'' (Some test_account)" "from_plan test_plan"
        "fresh_response None"]
      Create_succeeds_exactly_on_201_with_result [of empty_object_encoders "''now''"
        "fixed_client 201 ''201 Created'' None" "from_plan test_plan" "fresh_response None"]
    by (simp add: from_plan_def fresh_response_def)
qed

text \<open>
  C2. A \<open>Create\<close>, \<open>Update\<close> or \<open>Delete\<close> that reports an error has written no
  state and has left the record as it received it: the response still holds the state
  it held before the call, and the record is the one read from the plan or the prior
  state. (\<open>Delete\<close> writes no state on any path.)
\<close>

theorem failed_mutation_changes_nothing:
  "(HasError (Diagnostics (Resp (Create enc now client req resp))) \<longrightarrow>
      State (Resp (Create enc now client req resp)) = State resp \<and>
      Local (Create enc now client req resp) = Get_data req)
   \<and> (HasError (Diagnostics (Resp (Update enc tables now client req resp))) \<longrightarrow>
      State (Resp (Update enc tables now client req resp)) = State resp \<and>
      Local (Update enc tables now client req resp) = Get_data req)
   \<and> (HasError (Diagnostics (Resp (Delete tables client req resp))) \<longrightarrow>
      State (Resp (Delete tables client req resp)) = State resp \<and>
      Local (Delete tables client req resp) = Get_data req)"
  using Create_error_keeps [of enc now client req resp]
    Update_error_keeps [of enc tables now client req resp]
    Delete_keeps [of tables client req resp]
  by blast

text \<open>
  At concrete inputs: a \<open>Create\<close> answered with status 500, an \<open>Update\<close> answered with
  status 404 and a \<open>Delete\<close> that gets no answer all fail, and each leaves the state
  (none before \<open>Create\<close>, the stored record otherwise) and the record untouched.
\<close>

theorem failed_mutation_changes_nothing_witness:
  "HasError (Diagnostics (Resp (Create empty_object_encoders ''now''
      (fixed_client 500 ''500 Internal Server Error'' None) (from_plan test_plan)
      (fresh_response None))))
   \<and> State (Resp (Create empty_object_encoders ''now''
      (fixed_client 500 ''500 Internal Server Error'' None) (from_plan test_plan)
      (fresh_response None))) = None
   \<and> Local (Create empty_object_encoders ''now''
      (fixed_client 500 ''500 Internal Server Error'' None) (from_plan test_plan)
      (fresh_response None)) = test_plan
   \<and> HasError (Diagnostics (Resp (Update empty_object_encoders empty_tables ''now''
      (fixed_client 404 ''404 Not Found'' None) (from_plan test_plan)
      (fresh_response (Some test_state)))))
   \<and> State (Resp (Update empty_object_encoders empty_tables ''now''
      (fixed_client 404 ''404 Not Found'' None) (from_plan test_plan)
      (fresh_response (Some test_state)))) = Some test_state
   \<and> Local (Update empty_object_encoders empty_tables ''now''
      (fixed_client 404 ''404 Not Found'' None) (from_plan test_plan)
      (fresh_response (Some test_state))) = test_plan
   \<and> HasError (Diagnostics (Resp (Delete empty_tables (failing_client ''connection refused'')
      (from_plan test_state) (fresh_response (Some test_state)))))
   \<and> State (Resp (Delete empty_tables (failing_client ''connection refused'')
      (from_plan test_state) (fresh_response (Some test_state)))) = Some test_state
   \<and> Local (Delete empty_tables (failing_client ''connection refused'')
      (from_plan test_state) (fresh_response (Some test_state))) = test_state"
proof -
  have c: "HasError (Diagnostics (Resp (Create empty_object_encoders ''now''
      (fixed_client 500 ''500 Internal Server Error'' None) (from_plan test_plan)
      (fresh_response None))))"
    by code_simp
  have u: "HasError (Diagnostics (Resp (Update empty_object_encoders empty_tables ''now''
      (fixed_client 404 ''404 Not Found'' None) (from_plan test_plan)
      (fresh_response (Some test_state)))))"
    by code_simp
  have d: "HasError (Diagnostics (Resp (Delete empty_tables (failing_client ''connection refused'')
      (from_plan test_state) (fresh_response (Some test_state)))))"
    by code_simp
  show ?thesis
    using c u d
      failed_mutation_changes_nothing [of empty_object_encoders "''now''"
        "fixed_client 500 ''500 Internal Server Error'' None" "from_plan test_plan"
        "fresh_response None" empty_tables]
      failed_mutation_changes_nothing [of empty_object_encoders "''now''"
        "fixed_client 404 ''404 Not Found'' None" "from_plan test_plan"
        "fresh_response (Some test_state)" empty_tables]
      failed_mutation_changes_nothing [of empty_object_encoders "''now''"
        "failing_client ''connection refused''" "from_plan test_state"
        "fresh_response (Some test_state)" empty_tables]
    by (simp add: from_plan_def fresh_response_def)
qed

subsection \<open>The data sources\<close>

text \<open>
  When the list request is answered with status 200 and an envelope that has a
  result with elements and a true success flag, the outcome is the one of
  \<open>State.Set\<close> on the projection of the elements, in order: its diagnostics are
  reported, and the state is stored unless they hold an error.
\<close>

lemma listAll_stores_projection:
  assumes "\<not> HasError (Diagnostics resp @ Get_diags req)"
    and "GetApiAccountsWithResponse client = Inr r"
    and "StatusCode r = 200"
    and "JSON200 r = Some env"
    and "Result env = Some (x # xs)"
    and "Success env = Some True"
  shows "Diagnostics (Resp (AccountsDataSource_Read State_Set client req resp))
      = Diagnostics resp @ Get_diags req
        @ State_Set ((Get_data req)\<lparr>Accounts :=
            map (readAccountDataSourceModel zero_AccountDataSourceModel) (x # xs)\<rparr>)
    \<and> State (Resp (AccountsDataSource_Read State_Set client req resp))
      = (if HasError (State_Set ((Get_data req)\<lparr>Accounts :=
              map (readAccountDataSourceModel zero_AccountDataSourceModel) (x # xs)\<rparr>))
         then State resp
         else Some ((Get_data req)\<lparr>Accounts :=
              map (readAccountDataSourceModel zero_AccountDataSourceModel) (x # xs)\<rparr>))"
  using assms
  by (simp add: AccountsDataSource_Read_def Let_def)

text \<open>
  C3. When the list request is answered with status 200 and a parsed envelope, and
  the result is null, the result is an empty list, or the success flag is absent or
  false, the collection read reports the error \<open>No results Reading SMC Accounts\<close>,
  writes no state and produces no sequence: the record is the one read from the
  configuration. This holds whatever \<open>State.Set\<close> would do, which is not reached.
\<close>

theorem listAll_rejects_missing_or_empty_result:
  assumes "\<not> HasError (Diagnostics resp @ Get_diags req)"
    and "GetApiAccountsWithResponse client = Inr r"
    and "StatusCode r = 200"
    and "JSON200 r = Some env"
    and "Result env = None \<or> Result env = Some [] \<or> Success env = None
         \<or> Success env = Some False"
  shows "HasError (Diagnostics (Resp (AccountsDataSource_Read State_Set client req resp)))
    \<and> Diagnostics (Resp (AccountsDataSource_Read State_Set client req resp))
          = AddError (Diagnostics resp @ Get_diags req) ''No results Reading SMC Accounts''
              ''No results returned while reading SMC accounts''
    \<and> State (Resp (AccountsDataSource_Read State_Set client req resp)) = State resp
    \<and> Local (AccountsDataSource_Read State_Set client req resp) = Get_data req"
proof -
  have bad: "Result env = None \<or> length (the (Result env)) = 0 \<or> Success env = None
              \<or> \<not> the (Success env)"
    using assms(5) by auto
  show ?thesis
    using assms(1-4) bad
    by (auto simp: AccountsDataSource_Read_def Let_def HasError_AddError)
qed

text \<open>
  The answer \<open>{result: [], success: true}\<close> with status 200 is rejected with that
  error, and the state stays absent.
\<close>

theorem listAll_rejects_missing_or_empty_result_witness:
  "HasError (Diagnostics (Resp (AccountsDataSource_Read refusing_untyped_lists
      (fixed_client 200 ''200 OK'' None) (from_plan \<lparr>Accounts = []\<rparr>) (fresh_response None))))
   \<and> Diagnostics (Resp (AccountsDataSource_Read refusing_untyped_lists
      (fixed_client 200 ''200 OK'' None) (from_plan \<lparr>Accounts = []\<rparr>) (fresh_response None)))
      = AddError [] ''No results Reading SMC Accounts''
          ''No results returned while reading SMC accounts''
   \<and> State (Resp (AccountsDataSource_Read refusing_untyped_lists
      (fixed_client 200 ''200 OK'' None) (from_plan \<lparr>Accounts = []\<rparr>) (fresh_response None)))
      = None"
proof -
  have r: "GetApiAccountsWithResponse (fixed_client 200 ''200 OK'' None)
      = Inr \<lparr>StatusCode = 200, Status = ''200 OK'',
             JSON200 = Some \<lparr>Result = Some [], Success = Some True\<rparr>\<rparr>"
    by (simp add: fixed_client_def)
  have h: "\<not> HasError (Diagnostics (fresh_response None :: AccountsDataSourceModel tf_response)
      @ Get_diags (from_plan \<lparr>Accounts = []\<rparr>))"
    by (simp add: fresh_response_def from_plan_def HasError_def)
  have e: "Result \<lparr>Result = Some ([] :: account_item list), Success = Some True\<rparr> = None
      \<or> Result \<lparr>Result = Some ([] :: account_item list), Success = Some True\<rparr> = Some []
      \<or> Success \<lparr>Result = Some ([] :: account_item list), Success = Some True\<rparr> = None
      \<or> Success \<lparr>Result = Some ([] :: account_item list), Success = Some True\<rparr> = Some False"
    by simp
  show ?thesis
    using listAll_rejects_missing_or_empty_result [OF h r _ _ e, of refusing_untyped_lists]
    by (simp add: fresh_response_def from_plan_def HasError_AddError)
qed

text \<open>
  With the account of the acceptance test the state is stored. With an account that
  lacks the \<open>folders\<close> key, its list stays without element type, the conversion is
  refused, and the read ends with that error and without state.
\<close>

lemma listAll_on_test_account:
  "map_option (map ds_UUID \<circ> Accounts)
     (State (Resp (AccountsDataSource_Read refusing_untyped_lists
        (fixed_client 200 ''200 OK'' (Some test_account)) (from_plan \<lparr>Accounts = []\<rparr>)
        (fresh_response None))))
     = Some [Known ''75532250-c878-42f1-8871-bafa68e944d4'']
   \<and> Diagnostics (Resp (AccountsDataSource_Read refusing_untyped_lists
        (fixed_client 200 ''200 OK'' (Some test_account)) (from_plan \<lparr>Accounts = []\<rparr>)
        (fresh_response None))) = []
   \<and> State (Resp (AccountsDataSource_Read refusing_untyped_lists
        (fixed_client 200 ''200 OK'' (Some (test_account\<lparr>item_Folders := None\<rparr>)))
        (from_plan \<lparr>Accounts = []\<rparr>) (fresh_response None))) = None
   \<and> Diagnostics (Resp (AccountsDataSource_Read refusing_untyped_lists
        (fixed_client 200 ''200 OK'' (Some (test_account\<lparr>item_Folders := None\<rparr>)))
        (from_plan \<lparr>Accounts = []\<rparr>) (fresh_response None))) = [conversion_error]"
  by code_simp

text \<open>
  C10. In the read of the single-account data source, a response with status 200 and
  no parsed body has two outcomes. If the configured identifier is null, the
  operation returns without adding a diagnostic and without writing the state: the
  response is the one it was given (with the diagnostics of reading the
  configuration). If the identifier is not null, it reports an error, and writes no
  state either.
\<close>

theorem null_body_with_null_identifier_is_silent:
  assumes "\<not> HasError (Diagnostics resp @ Get_diags req)"
    and "GetApiAccountsUuidWithResponse client (ValueString (ds_Identifier (Get_data req)))
           = Inr r"
    and "StatusCode r = 200"
    and "JSON200 r = None"
  shows "(IsNull (ds_Identifier (Get_data req)) \<longrightarrow>
            Resp (AccountDataSource_Read client req resp)
              = resp\<lparr>Diagnostics := Diagnostics resp @ Get_diags req\<rparr>
            \<and> \<not> HasError (Diagnostics (Resp (AccountDataSource_Read client req resp)))
            \<and> State (Resp (AccountDataSource_Read client req resp)) = State resp)
    \<and> (\<not> IsNull (ds_Identifier (Get_data req)) \<longrightarrow>
            HasError (Diagnostics (Resp (AccountDataSource_Read client req resp)))
            \<and> State (Resp (AccountDataSource_Read client req resp)) = State resp)"
  using assms
  by (simp add: AccountDataSource_Read_def Let_def HasError_AddError)

text \<open>
  With the same empty answer, the configuration without identifier yields an empty
  list of diagnostics and no state, the configuration with identifier \<open>jdoe\<close> an
  error.
\<close>

theorem null_body_with_null_identifier_is_silent_witness:
  "Diagnostics (Resp (AccountDataSource_Read (fixed_client 200 ''200 OK'' None)
      (from_plan zero_AccountDataSourceModel) (fresh_response None))) = []
   \<and> State (Resp (AccountDataSource_Read (fixed_client 200 ''200 OK'' None)
      (from_plan zero_AccountDataSourceModel) (fresh_response None))) = None
   \<and> HasError (Diagnostics (Resp (AccountDataSource_Read (fixed_client 200 ''200 OK'' None)
      (from_plan (zero_AccountDataSourceModel\<lparr>ds_Identifier := Known ''jdoe''\<rparr>))
      (fresh_response None))))
   \<and> State (Resp (AccountDataSource_Read (fixed_client 200 ''200 OK'' None)
      (from_plan (zero_AccountDataSourceModel\<lparr>ds_Identifier := Known ''jdoe''\<rparr>))
      (fresh_response None))) = None"
proof -
  have r: "\<And>uuid. GetApiAccountsUuidWithResponse (fixed_client 200 ''200 OK'' None) uuid
      = Inr \<lparr>StatusCode = 200, Status = ''200 OK'', JSON200 = None\<rparr>"
    by (simp add: fixed_client_def)
  have h: "\<And>data. \<not> HasError (Diagnostics (fresh_response None :: AccountDataSourceModel tf_response)
      @ Get_diags (from_plan (data :: AccountDataSourceModel)))"
    by (simp add: fresh_response_def from_plan_def HasError_def)
  have n: "IsNull (ds_Identifier (Get_data (from_plan zero_AccountDataSourceModel)))"
    by (simp add: from_plan_def zero_AccountDataSourceModel_def IsNull_def)
  have k: "\<not> IsNull (ds_Identifier (Get_data
      (from_plan (zero_AccountDataSourceModel\<lparr>ds_Identifier := Known ''jdoe''\<rparr>))))"
    by (simp add: from_plan_def IsNull_def)
  show ?thesis
    using n k
      null_body_with_null_identifier_is_silent [OF h r, of zero_AccountDataSourceModel]
      null_body_with_null_identifier_is_silent [OF h r,
        of "zero_AccountDataSourceModel\<lparr>ds_Identifier := Known ''jdoe''\<rparr>"]
    by (simp add: fresh_response_def from_plan_def)
qed

subsection \<open>Configuration of the provider\<close>

lemma HasError_AddAttributeError: "HasError (AddAttributeError ds p s d)"
  by (simp add: HasError_def AddAttributeError_def)

lemma in_AddAttributeError:
  "d \<in> set (AddAttributeError ds p s dt) \<Longrightarrow> d \<in> set ds \<or> Summary d = s"
  by (auto simp: AddAttributeError_def)

lemma in_AddError: "d \<in> set (AddError ds s dt) \<Longrightarrow> d \<in> set ds \<or> Summary d = s"
  by (auto simp: AddError_def)

text \<open>
  The hostname is checked after resolution: when neither the configuration nor the
  environment gives one, \<open>Configure\<close> reports \<open>Missing SMC hostname\<close> and builds no
  client.
\<close>

lemma Configure_missing_hostname:
  assumes "\<not> HasError (Diagnostics resp @ Get_diags req)"
    and "\<not> IsUnknown (Hostname (Get_data req))" and "\<not> IsUnknown (APIKey (Get_data req))"
    and "(if IsNull (Hostname (Get_data req)) then getenv ''SMC_HOSTNAME''
          else ValueString (Hostname (Get_data req))) = []"
  shows "HasError (Diagnostics (Conf (Configure getenv new req resp)))
    \<and> NewClientCalls (Configure getenv new req resp) = []"
  using assms
  by (simp add: Configure_def Let_def HasError_AddAttributeError split: if_splits)

text \<open>
  The API key is not: the test that guards \<open>Missing SMC API Key\<close> asks whether the
  configured value is unknown, which has been excluded earlier, so the diagnostic is
  never added.
\<close>

lemma Configure_never_reports_missing_api_key:
  assumes "d \<in> set (Diagnostics (Conf (Configure getenv new req resp)))"
    and "Summary d = ''Missing SMC API Key''"
  shows "d \<in> set (Diagnostics resp @ Get_diags req)"
  using assms
  by (auto simp: Configure_def Let_def HasError_AddAttributeError
      dest!: in_AddAttributeError in_AddError split: if_splits sum.splits)

text \<open>
  C4. With a hostname in the configuration, no API key in the configuration and no
  \<open>SMC_API_KEY\<close> in the environment, \<open>Configure\<close> reports nothing and builds the
  client with the empty string as API key. (With the API key given and the hostname
  missing from both places it reports an error and builds nothing.)
\<close>

theorem Configure_accepts_missing_api_key:
  "Configure (\<lambda>name. []) (\<lambda>hostname apiKey. Inr (hostname, apiKey))
     (from_plan \<lparr>Hostname = Known ''https://smc.example.com'', APIKey = Null\<rparr>)
     \<lparr>Diagnostics = [], DataSourceData = None, ResourceData = None\<rparr>
   = \<lparr>Conf = \<lparr>Diagnostics = [],
               DataSourceData = Some (''https://smc.example.com'', []),
               ResourceData = Some (''https://smc.example.com'', [])\<rparr>,
      NewClientCalls = [(''https://smc.example.com'', [])]\<rparr>
   \<and> HasError (Diagnostics (Conf (Configure (\<lambda>name. [])
        (\<lambda>hostname apiKey. Inr (hostname, apiKey))
        (from_plan \<lparr>Hostname = Null, APIKey = Known ''secret''\<rparr>)
        \<lparr>Diagnostics = [], DataSourceData = None, ResourceData = None\<rparr>)))
   \<and> NewClientCalls (Configure (\<lambda>name. [])
        (\<lambda>hostname apiKey. Inr (hostname, apiKey))
        (from_plan \<lparr>Hostname = Null, APIKey = Known ''secret''\<rparr>)
        \<lparr>Diagnostics = [], DataSourceData = None, ResourceData = None\<rparr>) = []"
  by code_simp

subsection \<open>The requests of the resource\<close>

text \<open>
  \<open>Update\<close> and \<open>Delete\<close> address their request with \<open>String()\<close> of the uuid, the
  rendering meant for messages, where \<open>Read\<close> uses \<open>ValueString()\<close>. The rendering of
  a string is never the string: every rune is rendered in at least as many bytes as
  it has, and the two quotes are added.
\<close>

lemma DecodeRune_width_le_length: "DecodeRune_width s \<le> length s"
  by (cases s) (simp_all add: DecodeRune_width_def Let_def)

lemma DecodeRune_width_le_4: "DecodeRune_width s \<le> 4"
  by (simp add: DecodeRune_width_def Let_def)

lemma DecodeRune_width_pos: "1 \<le> DecodeRune_width (c # cs)"
  by (simp add: DecodeRune_width_def Let_def)

lemma ascii_width: "(of_char c :: nat) < 0x80 \<Longrightarrow> DecodeRune_width (c # cs) = 1"
  by (simp add: DecodeRune_width_def Let_def rune_size_def byte_at_def)

lemma length_quote_rune:
  "DecodeRune_width (c # cs) \<le> length (quote_rune tables (c # cs))"
proof (cases "(of_char c :: nat) < 0x80")
  case True
  then show ?thesis
    by (simp add: ascii_width Let_def)
next
  case False
  with DecodeRune_width_le_length [of "c # cs"] DecodeRune_width_le_4 [of "c # cs"]
  show ?thesis
    by (simp add: Let_def)
qed

lemma length_quote_runes: "length s \<le> length (quote_runes tables k s) + k"
proof (induction tables k s rule: quote_runes.induct)
  case (1 tables k)
  show ?case by simp
next
  case (2 tables c cs)
  from length_quote_rune [of c cs tables] DecodeRune_width_pos [of c cs] "2.IH"
  show ?case by (simp del: quote_rune.simps)
next
  case (3 tables k c cs)
  then show ?case by simp
qed

lemma String_neq_ValueString: "String tables v \<noteq> ValueString v"
proof (cases v)
  case (Known s)
  have "length (strconv_Quote tables s) = length (quote_runes tables 0 s) + 2"
    by (simp add: strconv_Quote_def)
  with length_quote_runes [of s tables 0] have "length (strconv_Quote tables s) \<noteq> length s"
    by simp
  then have "strconv_Quote tables s \<noteq> s"
    by auto
  with Known show ?thesis
    by (simp add: String_def ValueString_def)
qed (simp_all add: String_def ValueString_def)

text \<open>
  C6. For the record of the acceptance test, stored with uuid
  \<open>75532250-c878-42f1-8871-bafa68e944d4\<close>: \<open>Delete\<close> passes the client this uuid
  between double quotes, and so does \<open>Update\<close> for a plan that carries the uuid;
  for the plan of the test, whose uuid is unknown, \<open>Update\<close> passes the marker
  \<open><unknown>\<close>. \<open>Read\<close> passes the uuid itself.
\<close>

theorem Update_and_Delete_address_by_rendered_uuid:
  "Calls (Delete empty_tables (fixed_client 200 ''200 OK'' (Some test_account)) (from_plan test_state)
      (fresh_response (Some test_state)))
     = [DeleteApiAccountsUuid
          (CHR 0x22 # ''75532250-c878-42f1-8871-bafa68e944d4'' @ [CHR 0x22])]
   \<and> map (\<lambda>c. case c of PutApiAccountsUuid uuid contentType body \<Rightarrow> uuid | _ \<Rightarrow> [])
       (Calls (Update empty_object_encoders empty_tables ''now''
          (fixed_client 200 ''200 OK'' (Some test_account))
          (from_plan (test_plan\<lparr>UUID := Known ''75532250-c878-42f1-8871-bafa68e944d4''\<rparr>))
          (fresh_response (Some test_state))))
     = [CHR 0x22 # ''75532250-c878-42f1-8871-bafa68e944d4'' @ [CHR 0x22]]
   \<and> map (\<lambda>c. case c of PutApiAccountsUuid uuid contentType body \<Rightarrow> uuid | _ \<Rightarrow> [])
       (Calls (Update empty_object_encoders empty_tables ''now''
          (fixed_client 200 ''200 OK'' (Some test_account)) (from_plan test_plan)
          (fresh_response (Some test_state))))
     = [''<unknown>'']
   \<and> Calls (Read empty_tables ''now'' (fixed_client 200 ''200 OK'' (Some test_account))
        (from_plan test_state) (fresh_response (Some test_state)))
     = [GetApiAccountsUuid ''75532250-c878-42f1-8871-bafa68e944d4'']"
  by code_simp

subsection \<open>The body of the create request\<close>

lemma marshal_fields_Inr:
  "marshal_fields kvs = Inr ms \<Longrightarrow>
     map fst ms = map fst kvs \<and> map (\<lambda>m. Inr (snd m)) ms = map snd kvs"
  by (induction kvs arbitrary: ms rule: marshal_fields.induct) (auto split: sum.splits)

lemma json_Marshal_members:
  "json_Marshal enc data = Inr body \<Longrightarrow>
   \<exists>members. body = JObject members \<and>
     map fst members
       = [''description'', ''dn'', ''email'', ''folders'', ''identifier'', ''kind'',
          ''last_updated'', ''local_auth'', ''name'', ''password'', ''permissions'', ''uuid''] \<and>
     map (\<lambda>m. Inr (snd m)) members
       = [encString enc (Description data), encString enc (DN data),
          encString enc (Email data), encList enc (Folders data),
          encString enc (Identifier data), encString enc (Kind data),
          encString enc (LastUpdated data), encBool enc (LocalAuth data),
          encString enc (Name data), encString enc (Password data),
          encList enc (Permissions data), encString enc (UUID data)]"
  unfolding json_Marshal_def
  by (auto split: sum.splits dest!: marshal_fields_Inr)

text \<open>
  C5, as the specification states it, fails. For a plan that sets the identifier only,
  the body that \<open>Create\<close> posts has the key \<open>uuid\<close> and a key for each of the fields
  that are not set. (Which keys the body has does not depend on how the values are
  rendered.)
\<close>

theorem Create_body_counterexample:
  "Calls (Create empty_object_encoders ''now''
      (fixed_client 201 ''201 Created'' (Some test_account))
      (from_plan \<lparr>Description = Null, DN = Null, Email = Null, Folders = Null,
                  Identifier = Known ''jdoe'', Kind = Null, LastUpdated = Unknown,
                  LocalAuth = Null, Name = Null, Password = Null, Permissions = Null,
                  UUID = Unknown\<rparr>)
      (fresh_response None))
   = [PostApiAccounts ''application/json''
        (JObject [(''description'', JObject []), (''dn'', JObject []),
                  (''email'', JObject []), (''folders'', JObject []),
                  (''identifier'', JObject []), (''kind'', JObject []),
                  (''last_updated'', JObject []), (''local_auth'', JObject []),
                  (''name'', JObject []), (''password'', JObject []),
                  (''permissions'', JObject []), (''uuid'', JObject [])])]"
  by code_simp

text \<open>
  C5, amended. Whenever the plan was read without error and the record serialises,
  \<open>Create\<close> issues one request, the post of the serialised record, and the body is an
  object with the twelve members \<open>description\<close>, \<open>dn\<close>, \<open>email\<close>, \<open>folders\<close>,
  \<open>identifier\<close>, \<open>kind\<close>, \<open>last_updated\<close>, \<open>local_auth\<close>, \<open>name\<close>, \<open>password\<close>,
  \<open>permissions\<close>, \<open>uuid\<close>, in this order, each the rendering of the field of that
  name, set or not.
\<close>

theorem Create_posts_every_field:
  assumes "\<not> HasError (Diagnostics resp @ Get_diags req)"
    and "json_Marshal enc (Get_data req) = Inr body"
  shows "Calls (Create enc now client req resp) = [PostApiAccounts ''application/json'' body]
    \<and> (\<exists>members. body = JObject members \<and>
         map fst members
           = [''description'', ''dn'', ''email'', ''folders'', ''identifier'', ''kind'',
              ''last_updated'', ''local_auth'', ''name'', ''password'', ''permissions'',
              ''uuid''] \<and>
         map (\<lambda>m. Inr (snd m)) members
           = [encString enc (Description (Get_data req)), encString enc (DN (Get_data req)),
              encString enc (Email (Get_data req)), encList enc (Folders (Get_data req)),
              encString enc (Identifier (Get_data req)), encString enc (Kind (Get_data req)),
              encString enc (LastUpdated (Get_data req)),
              encBool enc (LocalAuth (Get_data req)), encString enc (Name (Get_data req)),
              encString enc (Password (Get_data req)),
              encList enc (Permissions (Get_data req)),
              encString enc (UUID (Get_data req))])"
proof -
  have "Calls (Create enc now client req resp) = [PostApiAccounts ''application/json'' body]"
    using assms by (simp add: Create_def Let_def split: sum.splits)
  with json_Marshal_members [OF assms(2)] show ?thesis
    by simp
qed

text \<open>For the plan of the acceptance test, the request carries all twelve keys.\<close>

theorem Create_posts_every_field_witness:
  "Calls (Create empty_object_encoders ''now''
      (fixed_client 201 ''201 Created'' (Some test_account)) (from_plan test_plan)
      (fresh_response None))
   = [PostApiAccounts ''application/json''
        (JObject [(''description'', JObject []), (''dn'', JObject []),
                  (''email'', JObject []), (''folders'', JObject []),
                  (''identifier'', JObject []), (''kind'', JObject []),
                  (''last_updated'', JObject []), (''local_auth'', JObject []),
                  (''name'', JObject []), (''password'', JObject []),
                  (''permissions'', JObject []), (''uuid'', JObject [])])]"
proof -
  have h: "\<not> HasError (Diagnostics (fresh_response None :: AccountResourceModel tf_response)
      @ Get_diags (from_plan test_plan))"
    by (simp add: fresh_response_def from_plan_def HasError_def)
  have m: "json_Marshal empty_object_encoders (Get_data (from_plan test_plan))
      = Inr (JObject [(''description'', JObject []), (''dn'', JObject []),
                  (''email'', JObject []), (''folders'', JObject []),
                  (''identifier'', JObject []), (''kind'', JObject []),
                  (''last_updated'', JObject []), (''local_auth'', JObject []),
                  (''name'', JObject []), (''password'', JObject []),
                  (''permissions'', JObject []), (''uuid'', JObject [])])"
    by (simp add: json_Marshal_def empty_object_encoders_def)
  show ?thesis
    using Create_posts_every_field [OF h m, of "''now''"
        "fixed_client 201 ''201 Created'' (Some test_account)"]
    by simp
qed

subsection \<open>Projection of a remote account\<close>

lemma readAccountResourceModel_fields:
  "Description (readAccountResourceModel now data item) = StringPointerValue (item_Description item)"
  "DN (readAccountResourceModel now data item) = StringPointerValue (item_Dn item)"
  "Email (readAccountResourceModel now data item) = StringPointerValue (item_Email item)"
  "Identifier (readAccountResourceModel now data item) = StringPointerValue (item_Identifier item)"
  "Kind (readAccountResourceModel now data item) = StringPointerValue (item_Kind item)"
  "LocalAuth (readAccountResourceModel now data item) = BoolPointerValue (item_LocalAuth item)"
  "Name (readAccountResourceModel now data item) = StringPointerValue (item_Name item)"
  "Folders (readAccountResourceModel now data item)
     = (case item_Folders item of None \<Rightarrow> Folders data
        | Some folders \<Rightarrow> Known (map Known folders))"
  "Permissions (readAccountResourceModel now data item)
     = (case item_Permissions item of None \<Rightarrow> Permissions data
        | Some permissions \<Rightarrow> Known (map Known permissions))"
  "UUID (readAccountResourceModel now data item) = Known (item_Uuid item)"
  "LastUpdated (readAccountResourceModel now data item) = Known now"
  "Password (readAccountResourceModel now data item) = Password data"
  by (simp_all add: readAccountResourceModel_def Let_def ListValue_def StringValue_def
      split: option.splits)

lemma readAccountDataSourceModel_fields:
  "ds_Description (readAccountDataSourceModel data item) = StringPointerValue (item_Description item)"
  "ds_DN (readAccountDataSourceModel data item) = StringPointerValue (item_Dn item)"
  "ds_Email (readAccountDataSourceModel data item) = StringPointerValue (item_Email item)"
  "ds_Identifier (readAccountDataSourceModel data item) = StringPointerValue (item_Identifier item)"
  "ds_Kind (readAccountDataSourceModel data item) = StringPointerValue (item_Kind item)"
  "ds_LocalAuth (readAccountDataSourceModel data item) = BoolPointerValue (item_LocalAuth item)"
  "ds_Name (readAccountDataSourceModel data item) = StringPointerValue (item_Name item)"
  "ds_Folders (readAccountDataSourceModel data item)
     = (case item_Folders item of None \<Rightarrow> ds_Folders data
        | Some folders \<Rightarrow> Known (map Known folders))"
  "ds_Permissions (readAccountDataSourceModel data item)
     = (case item_Permissions item of None \<Rightarrow> ds_Permissions data
        | Some permissions \<Rightarrow> Known (map Known permissions))"
  "ds_UUID (readAccountDataSourceModel data item) = Known (item_Uuid item)"
  by (simp_all add: readAccountDataSourceModel_def Let_def ListValue_def StringValue_def
      split: option.splits)

text \<open>
  C7, as the specification states it, fails for the list fields. The projection writes
  a list field only when the payload has the key, so a missing key leaves whatever the
  record held: a record whose folders were the empty list still has the empty list
  after the projection of a payload without \<open>folders\<close>, and a record with permissions
  keeps them.
\<close>

theorem absent_list_key_counterexample:
  "Folders (readAccountResourceModel ''now'' (test_plan\<lparr>Folders := Known []\<rparr>)
      (test_account\<lparr>item_Folders := None\<rparr>)) = Known []
   \<and> Permissions (readAccountResourceModel ''now'' test_plan
      (test_account\<lparr>item_Permissions := None\<rparr>)) = Known [Known ''smc'']"
  by (simp add: readAccountResourceModel_fields test_plan_def test_account_def)

text \<open>
  C7, amended. In both projections, a scalar field becomes null when the pointer of
  the payload is nil and the value pointed to otherwise, whatever the record held. A
  list field keeps what the record held when the payload lacks the key: it stays
  unset if it was unset, as in the fresh records of the collection read. When the
  key is present, the field becomes the known list of the elements in the order of
  the payload, the empty known list for a list without elements.
\<close>

theorem projection_of_optional_fields:
  "(item_Description item = None \<longrightarrow> Description (readAccountResourceModel now data item) = Null
       \<and> ds_Description (readAccountDataSourceModel ds item) = Null)
   \<and> (item_Dn item = None \<longrightarrow> DN (readAccountResourceModel now data item) = Null
       \<and> ds_DN (readAccountDataSourceModel ds item) = Null)
   \<and> (item_Email item = None \<longrightarrow> Email (readAccountResourceModel now data item) = Null
       \<and> ds_Email (readAccountDataSourceModel ds item) = Null)
   \<and> (item_Identifier item = None \<longrightarrow>
         Identifier (readAccountResourceModel now data item) = Null
       \<and> ds_Identifier (readAccountDataSourceModel ds item) = Null)
   \<and> (item_Kind item = None \<longrightarrow> Kind (readAccountResourceModel now data item) = Null
       \<and> ds_Kind (readAccountDataSourceModel ds item) = Null)
   \<and> (item_LocalAuth item = None \<longrightarrow>
         LocalAuth (readAccountResourceModel now data item) = Null
       \<and> ds_LocalAuth (readAccountDataSourceModel ds item) = Null)
   \<and> (item_Name item = None \<longrightarrow> Name (readAccountResourceModel now data item) = Null
       \<and> ds_Name (readAccountDataSourceModel ds item) = Null)
   \<and> (\<forall>v. item_Description item = Some v \<longrightarrow>
         Description (readAccountResourceModel now data item) = Known v
       \<and> ds_Description (readAccountDataSourceModel ds item) = Known v)
   \<and> (\<forall>v. item_Dn item = Some v \<longrightarrow>
         DN (readAccountResourceModel now data item) = Known v
       \<and> ds_DN (readAccountDataSourceModel ds item) = Known v)
   \<and> (\<forall>v. item_Email item = Some v \<longrightarrow>
         Email (readAccountResourceModel now data item) = Known v
       \<and> ds_Email (readAccountDataSourceModel ds item) = Known v)
   \<and> (\<forall>v. item_Identifier item = Some v \<longrightarrow>
         Identifier (readAccountResourceModel now data item) = Known v
       \<and> ds_Identifier (readAccountDataSourceModel ds item) = Known v)
   \<and> (\<forall>v. item_Kind item = Some v \<longrightarrow>
         Kind (readAccountResourceModel now data item) = Known v
       \<and> ds_Kind (readAccountDataSourceModel ds item) = Known v)
   \<and> (\<forall>v. item_Name item = Some v \<longrightarrow>
         Name (readAccountResourceModel now data item) = Known v
       \<and> ds_Name (readAccountDataSourceModel ds item) = Known v)
   \<and> (\<forall>v. item_LocalAuth item = Some v \<longrightarrow>
         LocalAuth (readAccountResourceModel now data item) = Known v
       \<and> ds_LocalAuth (readAccountDataSourceModel ds item) = Known v)
   \<and> (item_Folders item = None \<longrightarrow>
         Folders (readAccountResourceModel now data item) = Folders data
       \<and> ds_Folders (readAccountDataSourceModel ds item) = ds_Folders ds
       \<and> ds_Folders (readAccountDataSourceModel zero_AccountDataSourceModel item) = Null)
   \<and> (item_Permissions item = None \<longrightarrow>
         Permissions (readAccountResourceModel now data item) = Permissions data
       \<and> ds_Permissions (readAccountDataSourceModel ds item) = ds_Permissions ds
       \<and> ds_Permissions (readAccountDataSourceModel zero_AccountDataSourceModel item) = Null)
   \<and> (\<forall>xs. item_Folders item = Some xs \<longrightarrow>
         Folders (readAccountResourceModel now data item) = Known (map Known xs)
       \<and> ds_Folders (readAccountDataSourceModel ds item) = Known (map Known xs))
   \<and> (\<forall>xs. item_Permissions item = Some xs \<longrightarrow>
         Permissions (readAccountResourceModel now data item) = Known (map Known xs)
       \<and> ds_Permissions (readAccountDataSourceModel ds item) = Known (map Known xs))"
  by (simp add: readAccountResourceModel_fields readAccountDataSourceModel_fields
      StringPointerValue_def BoolPointerValue_def zero_AccountDataSourceModel_def)

text \<open>
  A payload without \<open>folders\<close> read into a fresh record leaves the folders unset; the
  payload with \<open>folders: []\<close> gives the empty list, which is a different value; the
  payload of the acceptance test gives its folder.
\<close>

theorem projection_of_optional_fields_witness:
  "ds_Folders (readAccountDataSourceModel zero_AccountDataSourceModel
      (test_account\<lparr>item_Folders := None\<rparr>)) = Null
   \<and> ds_Folders (readAccountDataSourceModel zero_AccountDataSourceModel
      (test_account\<lparr>item_Folders := Some []\<rparr>)) = Known []
   \<and> Folders (readAccountResourceModel ''now'' test_plan test_account)
      = Known [Known ''folder-uuid'']
   \<and> Email (readAccountResourceModel ''now'' test_plan (test_account\<lparr>item_Email := None\<rparr>))
      = Null"
proof -
  have absent: "item_Folders (test_account\<lparr>item_Folders := None\<rparr>) = None"
    by simp
  have empty: "item_Folders (test_account\<lparr>item_Folders := Some []\<rparr>) = Some []"
    by simp
  have one: "item_Folders test_account = Some [''folder-uuid'']"
    by (simp add: test_account_def)
  have email: "item_Email (test_account\<lparr>item_Email := None\<rparr>) = None"
    by simp
  have "ds_Folders (readAccountDataSourceModel zero_AccountDataSourceModel
      (test_account\<lparr>item_Folders := None\<rparr>)) = Null"
    using absent
      projection_of_optional_fields [of "test_account\<lparr>item_Folders := None\<rparr>" "''now''"
        test_plan zero_AccountDataSourceModel]
    by blast
  moreover have "ds_Folders (readAccountDataSourceModel zero_AccountDataSourceModel
      (test_account\<lparr>item_Folders := Some []\<rparr>)) = Known (map Known [])"
    using empty
      projection_of_optional_fields [of "test_account\<lparr>item_Folders := Some []\<rparr>" "''now''"
        test_plan zero_AccountDataSourceModel]
    by blast
  moreover have "Folders (readAccountResourceModel ''now'' test_plan test_account)
      = Known (map Known [''folder-uuid''])"
    using one
      projection_of_optional_fields [of test_account "''now''" test_plan
        zero_AccountDataSourceModel]
    by blast
  moreover have "Email (readAccountResourceModel ''now'' test_plan
      (test_account\<lparr>item_Email := None\<rparr>)) = Null"
    using email
      projection_of_optional_fields [of "test_account\<lparr>item_Email := None\<rparr>" "''now''"
        test_plan zero_AccountDataSourceModel]
    by blast
  ultimately show ?thesis
    by simp
qed

text \<open>
  C8, as the specification states it, fails. The decoded account has a plain string
  for the uuid, empty when the payload has no \<open>uuid\<close> key, and the projection has no
  failure: a create answered with status 201 and such a result ends without error and
  stores a record whose uuid is the empty string.
\<close>

theorem absent_uuid_counterexample:
  "\<not> HasError (Diagnostics (Resp (Create empty_object_encoders ''now''
      (fixed_client 201 ''201 Created'' (Some (test_account\<lparr>item_Uuid := []\<rparr>)))
      (from_plan test_plan) (fresh_response None))))
   \<and> map_option UUID (State (Resp (Create empty_object_encoders ''now''
      (fixed_client 201 ''201 Created'' (Some (test_account\<lparr>item_Uuid := []\<rparr>)))
      (from_plan test_plan) (fresh_response None)))) = Some (Known [])"
  by code_simp

text \<open>
  C8, amended. Both projections return a record for every payload, and the uuid of the
  record is always set, to the uuid string of the decoded payload, the empty string
  included.
\<close>

theorem projection_sets_uuid_of_payload:
  "UUID (readAccountResourceModel now data item) = Known (item_Uuid item)
   \<and> ds_UUID (readAccountDataSourceModel ds item) = Known (item_Uuid item)
   \<and> UUID (readAccountResourceModel now data (item\<lparr>item_Uuid := []\<rparr>)) = Known []
   \<and> ds_UUID (readAccountDataSourceModel ds (item\<lparr>item_Uuid := []\<rparr>)) = Known []"
  by (simp add: readAccountResourceModel_fields readAccountDataSourceModel_fields)

subsection \<open>Validation\<close>









end
